theory Spec2Isabelle
  imports Complex_Main "HOL-Library.Char_ord" "HOL-Library.List_Lexorder"
begin

section \<open>Python values: exceptions and floats\<close>

text \<open>
  An exception that leaves a function is a value of type \<open>error\<close>; a function that can
  raise returns \<open>error + 'a\<close>, with \<open>Inl\<close> carrying the exception.
\<close>

datatype error = KeyError string | AttributeError string | RuntimeError string
  | ValueError string | TypeError string | ZeroDivisionError

text \<open>
  Losses and scores are floats. The model keeps the finite ones as exact rationals
  (the rounding of the machine format is not represented) and has the three special
  values, because the best validation loss starts at \<^verbatim>\<open>float("inf")\<close> and a quotient
  with denominator zero is infinite or not a number.
\<close>

datatype pyfloat = Finite rat | PosInf | NegInf | NaN

text \<open>Python's \<^verbatim>\<open>a > b\<close> on floats: every comparison with NaN is false.\<close>

fun float_gt :: "pyfloat \<Rightarrow> pyfloat \<Rightarrow> bool" where
  "float_gt NaN b = False"
| "float_gt a NaN = False"
| "float_gt PosInf PosInf = False"
| "float_gt PosInf b = True"
| "float_gt NegInf b = False"
| "float_gt (Finite x) (Finite y) = (y < x)"
| "float_gt (Finite x) NegInf = True"
| "float_gt (Finite x) PosInf = False"

text \<open>Python's \<^verbatim>\<open>a < b\<close>.\<close>

definition float_lt :: "pyfloat \<Rightarrow> pyfloat \<Rightarrow> bool" where
  "float_lt a b = float_gt b a"

section \<open>Greedy sequence decoder\<close>

text \<open>
  The training and evaluation loops of \<^verbatim>\<open>src/model.py\<close> call
  \<^verbatim>\<open>decode_batch_outputs(output, ind2token, blank_ind, blank_token)\<close>, imported from
  \<^verbatim>\<open>src.utils\<close>. That module is not among the source files, so the per-sample collapse
  is taken from section 4.2 of the specification.
\<close>

text \<open>
  Modelled from the spec: \<^verbatim>\<open>decode_batch_outputs\<close> of \<^verbatim>\<open>src.utils\<close> is missing.
  "Scan left to right, keep a symbol if it differs from the previous raw symbol":
  \<open>prev\<close> is the previous raw symbol, \<open>None\<close> before the first timestep.
\<close>

fun keep_changed :: "nat option \<Rightarrow> nat list \<Rightarrow> nat list" where
  "keep_changed prev [] = []"
| "keep_changed prev (i # raw) =
     (if prev = Some i then keep_changed (Some i) raw
      else i # keep_changed (Some i) raw)"

text \<open>
  Modelled from the spec: \<^verbatim>\<open>decode_batch_outputs\<close> of \<^verbatim>\<open>src.utils\<close> is missing.
  "... then drop all kept symbols equal to blank."
\<close>

definition greedy_decode :: "nat \<Rightarrow> nat list \<Rightarrow> nat list" where
  "greedy_decode blank raw = filter (\<lambda>i. i \<noteq> blank) (keep_changed None raw)"

section \<open>Alphabet codec: \<^verbatim>\<open>extract_data\<close>\<close>

text \<open>
  A Python string is a \<open>string\<close>; a character of a label is the one-character string
  \<open>[c]\<close>, as it is in Python, so the blank token and the characters live in one type of
  tokens. Characters are ordered by their code, which is how \<^verbatim>\<open>sorted\<close> orders
  one-character strings.
\<close>

text \<open>
  A dict built by a comprehension: the pairs are stored in order, a later pair
  replacing an earlier one with the same key.
\<close>

definition dict_of :: "('k \<times> 'v) list \<Rightarrow> ('k \<rightharpoonup> 'v)" where
  "dict_of kvs = fold (\<lambda>(k, v) m. m(k \<mapsto> v)) kvs Map.empty"

text \<open>
  \<^verbatim>\<open>[m[k] for k in ks]\<close>: the list of the values, or \<open>None\<close> when a key is missing
  (the lookup raises \<^verbatim>\<open>KeyError\<close>).
\<close>

definition lookup_all :: "('k \<rightharpoonup> 'v) \<Rightarrow> 'k list \<Rightarrow> 'v list option" where
  "lookup_all m ks = those (map m ks)"

text \<open>The seven values that \<^verbatim>\<open>extract_data\<close> returns.\<close>

record codec =
  paths_to_images :: "string list"
  targets_enc :: "nat list list"
  token2ind :: "string \<rightharpoonup> nat"
  ind2token :: "nat \<rightharpoonup> string"
  blank_token :: string
  blank_ind :: nat
  num_classes :: nat

text \<open>
  \<^verbatim>\<open>extract_data(path_to_file, blank_token="<BLANK>")\<close>. The annotation table read
  from the file is the argument \<open>annotations\<close>: one pair of image path and label per
  row. \<^verbatim>\<open>len(token2ind)\<close> is the number of distinct tokens of \<open>targets_flat\<close>.
\<close>

definition extract_data :: "(string \<times> string) list \<Rightarrow> string \<Rightarrow> error + codec" where
  "extract_data annotations blank =
     (let paths = map fst annotations;
          labels = map snd annotations;
          targets = map (map (\<lambda>c. [c])) labels;
          targets_flat = blank # sorted_list_of_set (set (concat targets));
          t2i = dict_of (map (\<lambda>(ind, target). (target, ind)) (enumerate 0 targets_flat));
          i2t = dict_of (enumerate 0 targets_flat)
      in case those (map (lookup_all t2i) targets) of
           None \<Rightarrow> Inl (KeyError ''token'')
         | Some enc \<Rightarrow>
             (case t2i blank of
                None \<Rightarrow> Inl (KeyError blank)
              | Some b \<Rightarrow>
                  Inr \<lparr>paths_to_images = paths, targets_enc = enc, token2ind = t2i,
                       ind2token = i2t, blank_token = blank, blank_ind = b,
                       num_classes = length (remdups targets_flat)\<rparr>))"

section \<open>Evaluation scorer: \<^verbatim>\<open>_evaluations_cer\<close>\<close>

text \<open>
  \<^verbatim>\<open>_evaluations_cer(labels_true, labels_pred)\<close> builds the metric object
  \<^verbatim>\<open>CharErrorRate()\<close> of the torchmetrics library and calls it with its two arguments
  in the order it received them. The library is not part of the repository; the
  definitions below, up to \<open>CharErrorRate\<close>, follow its documented computation. The metric's call signature is
  \<^verbatim>\<open>(preds, target)\<close>: it adds up, over the pairs of \<^verbatim>\<open>zip(preds, target)\<close>, the edit
  distance of the pair and the length of the pair's \<^emph>\<open>target\<close> string, and returns the
  quotient of the two sums as a float tensor. A single string stands for the list
  holding it.
\<close>

text \<open>
  The library's edit distance: the least number of substitutions, insertions and
  deletions, by the usual recurrence.
\<close>

fun edit_distance :: "'a list \<Rightarrow> 'a list \<Rightarrow> nat" where
  "edit_distance [] reference = length reference"
| "edit_distance prediction [] = length prediction"
| "edit_distance (p # prediction) (r # reference) =
     (if p = r then edit_distance prediction reference
      else Suc (min (edit_distance prediction (r # reference))
                 (min (edit_distance (p # prediction) reference)
                      (edit_distance prediction reference))))"

text \<open>
  Division of two float tensors that hold natural numbers: a zero denominator gives
  infinity, or NaN when the numerator is zero too; no exception is raised.
\<close>

definition tensor_div :: "nat \<Rightarrow> nat \<Rightarrow> pyfloat" where
  "tensor_div errs tot =
     (if tot = 0 then (if errs = 0 then NaN else PosInf)
      else Finite (of_nat errs / of_nat tot))"

definition cer_update :: "string list \<Rightarrow> string list \<Rightarrow> nat \<times> nat" where
  "cer_update preds target =
     fold (\<lambda>(pred, tgt) (errs, tot). (errs + edit_distance pred tgt, tot + length tgt))
       (zip preds target) (0, 0)"

definition CharErrorRate :: "string list \<Rightarrow> string list \<Rightarrow> pyfloat" where
  "CharErrorRate preds target =
     (case cer_update preds target of (errs, tot) \<Rightarrow> tensor_div errs tot)"

text \<open>
  The method of the source: \<^verbatim>\<open>cer = CharErrorRate(); return cer(labels_true, labels_pred)\<close>.
  The true labels are handed over as the metric's \<^verbatim>\<open>preds\<close> and the predicted labels
  as its \<^verbatim>\<open>target\<close>.
\<close>

definition evaluations_cer :: "string list \<Rightarrow> string list \<Rightarrow> pyfloat" where
  "evaluations_cer labels_true labels_pred = CharErrorRate labels_true labels_pred"

text \<open>
  The score as the specification words it, for comparison with the source:
  edit distance divided by \<open>max(1, length of the true string)\<close>.
\<close>

definition cer_spec :: "string \<Rightarrow> string \<Rightarrow> pyfloat" where
  "cer_spec true predicted =
     Finite (of_nat (edit_distance true predicted) / of_nat (max 1 (length true)))"

section \<open>Batch assembly: \<^verbatim>\<open>collate_fn\<close>\<close>

text \<open>
  A tensor is its shape and its cells in row-major order. \<^verbatim>\<open>torch.stack\<close> puts
  tensors of one shape along a new first axis; it raises \<^verbatim>\<open>RuntimeError\<close> for an
  empty list and for tensors of different shapes.
\<close>

record 'a tensor =
  shape :: "nat list"
  cells :: "'a list"

definition torch_stack :: "'a tensor list \<Rightarrow> error + 'a tensor" where
  "torch_stack ts =
     (case ts of
        [] \<Rightarrow> Inl (RuntimeError ''stack expects a non-empty TensorList'')
      | t # rest \<Rightarrow>
          if list_all (\<lambda>u. shape u = shape t) rest
          then Inr \<lparr>shape = length ts # shape t, cells = concat (map cells ts)\<rparr>
          else Inl (RuntimeError ''stack expects each tensor to be equal size''))"

text \<open>
  \<^verbatim>\<open>torch.Tensor(xs).int()\<close> makes a tensor of 32-bit floats from the Python integers
  and casts it to 32-bit integers. A float of this format has a significand of 24 bits:
  a natural number below \<open>2^24\<close> is kept, a larger one is rounded to the nearest number
  with 24 significant bits, a tie going to the even significand.
\<close>

fun bit_length :: "nat \<Rightarrow> nat" where
  "bit_length n = (if n = 0 then 0 else Suc (bit_length (n div 2)))"

declare bit_length.simps [simp del]

definition float32_of_nat :: "nat \<Rightarrow> nat" where
  "float32_of_nat n =
     (let e = bit_length n - 24;
          q = n div 2 ^ e;
          r = n mod 2 ^ e;
          half = 2 ^ (e - 1)
      in (if 0 < e \<and> (half < r \<or> (r = half \<and> odd q)) then q + 1 else q) * 2 ^ e)"

text \<open>
  The cast to a 32-bit integer keeps a float below \<open>2^31\<close>. For a larger float
  (infinity included) the result is not fixed by the library; the model takes the least
  32-bit integer, as the conversion instruction of x86-64 does. No statement below
  depends on that branch.
\<close>

definition int_tensor_entry :: "nat \<Rightarrow> int" where
  "int_tensor_entry n =
     (let v = float32_of_nat n in if v < 2 ^ 31 then int v else - (2 ^ 31))"

definition int_tensor :: "nat list \<Rightarrow> int list" where
  "int_tensor xs = map int_tensor_entry xs"

text \<open>
  An item of the dataset, as \<^verbatim>\<open>CaptchaDataset.__getitem__\<close> returns it: the key
  \<^verbatim>\<open>seqs\<close> is present only when the dataset has targets.
\<close>

record 'a sample =
  image :: "'a tensor"
  img_name :: string
  seqs :: "nat list option"

text \<open>The dict that \<^verbatim>\<open>collate_fn\<close> returns.\<close>

record 'a batch =
  images :: "'a tensor"
  seq :: "int list"
  seq_len :: "int list"
  img_names :: "string list"

text \<open>
  The loop of \<^verbatim>\<open>collate_fn\<close> over the items, with its four lists; \<^verbatim>\<open>item["seqs"]\<close>
  raises \<^verbatim>\<open>KeyError\<close> for an item without labels.
\<close>

fun collate_items ::
  "'a sample list \<Rightarrow> 'a tensor list \<times> nat list \<times> nat list \<times> string list
   \<Rightarrow> error + 'a tensor list \<times> nat list \<times> nat list \<times> string list" where
  "collate_items [] acc = Inr acc"
| "collate_items (item # items) (imgs, sqs, seq_lens, images_name) =
     (case seqs item of
        None \<Rightarrow> Inl (KeyError ''seqs'')
      | Some s \<Rightarrow>
          collate_items items
            (imgs @ [image item], sqs @ s, seq_lens @ [length s],
             images_name @ [img_name item]))"

definition collate_fn :: "'a sample list \<Rightarrow> error + 'a batch" where
  "collate_fn items =
     (case collate_items items ([], [], [], []) of
        Inl e \<Rightarrow> Inl e
      | Inr (imgs, sqs, seq_lens, images_name) \<Rightarrow>
          (case torch_stack imgs of
             Inl e \<Rightarrow> Inl e
           | Inr stacked \<Rightarrow>
               Inr \<lparr>images = stacked, seq = int_tensor sqs, seq_len = int_tensor seq_lens,
                    img_names = images_name\<rparr>))"

section \<open>The recogniser object: \<^verbatim>\<open>OCR\<close>, its checkpoints and its training loop\<close>

text \<open>
  Of the attributes that \<^verbatim>\<open>OCR.__init__\<close> sets, the state below keeps those that
  \<^verbatim>\<open>train\<close>, \<^verbatim>\<open>save\<close> and \<^verbatim>\<open>load\<close> read or write. The parameters of the network
  (\<^verbatim>\<open>self.model\<close>) and the state of the optimiser (\<^verbatim>\<open>self._optimizer\<close>) are values of
  the type variables \<open>'p\<close> and \<open>'o\<close>: their content belongs to the tensor library.
\<close>

record ('p, 'o) ocr =
  ocr_model :: 'p
  ocr_optimizer :: 'o
  ocr_epoch :: nat
  ocr_eval_loss :: pyfloat
  path_save_checkpoint :: string

text \<open>\<^verbatim>\<open>__init__\<close>: epoch 0, best validation loss \<^verbatim>\<open>float("inf")\<close>.\<close>

definition OCR_init :: "'p \<Rightarrow> 'o \<Rightarrow> ('p, 'o) ocr" where
  "OCR_init params opt =
     \<lparr>ocr_model = params, ocr_optimizer = opt, ocr_epoch = 0, ocr_eval_loss = PosInf,
      path_save_checkpoint = ''./model/checkpoints/''\<rparr>"

text \<open>
  A checkpoint is the dict that \<^verbatim>\<open>torch.save\<close> writes and \<^verbatim>\<open>torch.load\<close> reads. Its
  four possible keys are the fields; a key that is absent from the dict is \<open>None\<close>.
\<close>

record ('p, 'o) checkpoint =
  model_state_dict :: "'p option"
  optimizer_state_dic :: "'o option"
  epoch :: "nat option"
  loss :: "pyfloat option"

text \<open>
  \<^verbatim>\<open>save(path_to_save, training)\<close>: the dict handed to \<^verbatim>\<open>torch.save\<close>. Creating the
  directory and writing the file are left to the caller's file log.
\<close>

definition save :: "('p, 'o) ocr \<Rightarrow> bool \<Rightarrow> ('p, 'o) checkpoint" where
  "save self training =
     (let state = \<lparr>model_state_dict = Some (ocr_model self), optimizer_state_dic = None,
                   epoch = None, loss = None\<rparr>
      in if training
         then state\<lparr>optimizer_state_dic := Some (ocr_optimizer self),
                    epoch := Some (ocr_epoch self),
                    loss := Some (ocr_eval_loss self)\<rparr>
         else state)"

text \<open>
  \<^verbatim>\<open>load(path_to_model)\<close>, applied to the dict read from the file. The statements run
  in the source's order: the optimiser state, the epoch, the loss (guarded, as in the
  source, by \<^verbatim>\<open>"epoch" in checkpoint\<close>), and last the parameters. Indexing the dict
  with an absent key raises \<^verbatim>\<open>KeyError\<close>.
\<close>

definition load :: "('p, 'o) ocr \<Rightarrow> ('p, 'o) checkpoint \<Rightarrow> error + ('p, 'o) ocr" where
  "load self checkpoint =
     (let self1 = (case optimizer_state_dic checkpoint of
                     Some opt \<Rightarrow> self\<lparr>ocr_optimizer := opt\<rparr>
                   | None \<Rightarrow> self);
          self2 = (case epoch checkpoint of
                     Some e \<Rightarrow> self1\<lparr>ocr_epoch := e\<rparr>
                   | None \<Rightarrow> self1)
      in case (if epoch checkpoint \<noteq> None
               then (case loss checkpoint of
                       None \<Rightarrow> Inl (KeyError ''loss'')
                     | Some l \<Rightarrow> Inr (self2\<lparr>ocr_eval_loss := l\<rparr>))
               else Inr self2) of
           Inl e \<Rightarrow> Inl e
         | Inr self3 \<Rightarrow>
             (case model_state_dict checkpoint of
                None \<Rightarrow> Inl (KeyError ''model_state_dict'')
              | Some params \<Rightarrow> Inr (self3\<lparr>ocr_model := params\<rparr>)))"

text \<open>
  The name of a checkpoint file written by \<^verbatim>\<open>train\<close>,
  \<^verbatim>\<open>Epoch_{self._epoch}_loss_{self._eval_loss:.5f}.pt\<close> under the checkpoint directory,
  is kept as its two ingredients; the decimal formatting of the loss is not
  represented.
\<close>

record checkpoint_name =
  directory :: string
  name_epoch :: nat
  name_loss :: pyfloat

text \<open>
  The state of a run of \<^verbatim>\<open>train\<close>: the object, the files written so far (oldest
  first), the list \<^verbatim>\<open>evaluations_loss\<close>, and the epoch counters at which a progress
  line was printed (the text of the line is not represented). The list
  \<^verbatim>\<open>training_loss\<close> is left out: the source appends the list to itself, which no HOL
  list can hold, and nothing reads it.
\<close>

record ('p, 'o) train_state =
  self :: "('p, 'o) ocr"
  files :: "(checkpoint_name \<times> ('p, 'o) checkpoint) list"
  evaluations_loss :: "pyfloat list"
  progress :: "nat list"

text \<open>
  One pass of the loop body of \<^verbatim>\<open>train\<close>, for the loop index \<open>index\<close>. The two
  collaborators are parameters: \<open>train_epoch\<close> stands for
  \<^verbatim>\<open>_train_epoch(train_loader)\<close>, which updates the parameters and the optimiser and
  returns the training loss, and \<open>validation_epoch\<close> for
  \<^verbatim>\<open>_validation_epoch(test_loader)\<close>, which returns the validation loss; either may
  raise, which ends the run. The test \<^verbatim>\<open>(epoch + 1) % visualize_each == 0\<close> raises
  \<^verbatim>\<open>ZeroDivisionError\<close> when \<^verbatim>\<open>visualize_each\<close> is 0.
\<close>

definition train_iteration ::
  "('p \<Rightarrow> 'o \<Rightarrow> error + 'p \<times> 'o \<times> pyfloat) \<Rightarrow> ('p \<Rightarrow> error + pyfloat) \<Rightarrow> bool \<Rightarrow> int
   \<Rightarrow> nat \<Rightarrow> ('p, 'o) train_state \<Rightarrow> error + ('p, 'o) train_state" where
  "train_iteration train_epoch validation_epoch save_checkpoint visualize_each index st =
     (case train_epoch (ocr_model (self st)) (ocr_optimizer (self st)) of
        Inl e \<Rightarrow> Inl e
      | Inr (params, opt, train_loss) \<Rightarrow>
          (let s1 = (self st)\<lparr>ocr_model := params, ocr_optimizer := opt\<rparr>
           in case validation_epoch (ocr_model s1) of
                Inl e \<Rightarrow> Inl e
              | Inr eval_loss \<Rightarrow>
                  (let losses = evaluations_loss st @ [eval_loss];
                       s2 = s1\<lparr>ocr_epoch := ocr_epoch s1 + 1\<rparr>
                   in if visualize_each = 0 then Inl ZeroDivisionError
                      else
                        (let shown = (if (int index + 1) mod visualize_each = 0
                                      then progress st @ [ocr_epoch s2] else progress st)
                         in if save_checkpoint \<and> float_gt (ocr_eval_loss s2) eval_loss
                            then (let s3 = s2\<lparr>ocr_eval_loss := eval_loss\<rparr>;
                                      name = \<lparr>directory = path_save_checkpoint s3,
                                              name_epoch = ocr_epoch s3,
                                              name_loss = ocr_eval_loss s3\<rparr>
                                  in Inr \<lparr>self = s3,
                                          files = files st @ [(name, save s3 True)],
                                          evaluations_loss = losses, progress = shown\<rparr>)
                            else Inr \<lparr>self = s2, files = files st,
                                      evaluations_loss = losses, progress = shown\<rparr>))))"

text \<open>\<^verbatim>\<open>for epoch in range(num_epochs)\<close>: \<open>n\<close> passes, starting at the index \<open>index\<close>.\<close>

fun train_loop ::
  "('p \<Rightarrow> 'o \<Rightarrow> error + 'p \<times> 'o \<times> pyfloat) \<Rightarrow> ('p \<Rightarrow> error + pyfloat) \<Rightarrow> bool \<Rightarrow> int
   \<Rightarrow> nat \<Rightarrow> nat \<Rightarrow> ('p, 'o) train_state \<Rightarrow> error + ('p, 'o) train_state" where
  "train_loop train_epoch validation_epoch save_checkpoint visualize_each index 0 st = Inr st"
| "train_loop train_epoch validation_epoch save_checkpoint visualize_each index (Suc n) st =
     (case train_iteration train_epoch validation_epoch save_checkpoint visualize_each
             index st of
        Inl e \<Rightarrow> Inl e
      | Inr st' \<Rightarrow>
          train_loop train_epoch validation_epoch save_checkpoint visualize_each
            (Suc index) n st')"

text \<open>
  \<^verbatim>\<open>train(train_loader, test_loader, num_epochs=500, save_checkpoint=True,
  visualize_learning=True, visualize_each=5)\<close>, started on the files already present.
\<close>

definition train ::
  "('p \<Rightarrow> 'o \<Rightarrow> error + 'p \<times> 'o \<times> pyfloat) \<Rightarrow> ('p \<Rightarrow> error + pyfloat)
   \<Rightarrow> ('p, 'o) ocr \<Rightarrow> (checkpoint_name \<times> ('p, 'o) checkpoint) list \<Rightarrow> nat \<Rightarrow> bool \<Rightarrow> int
   \<Rightarrow> error + ('p, 'o) train_state" where
  "train train_epoch validation_epoch ocr0 files0 num_epochs save_checkpoint visualize_each =
     train_loop train_epoch validation_epoch save_checkpoint visualize_each 0 num_epochs
       \<lparr>self = ocr0, files = files0, evaluations_loss = [], progress = []\<rparr>"

section \<open>Data loaders: \<^verbatim>\<open>create_loaders\<close> and its call from \<^verbatim>\<open>train_pipeline\<close>\<close>

text \<open>
  The arguments of \<^verbatim>\<open>create_loaders\<close> are dynamically typed. \<open>PyObj\<close> is an object the
  model does not look into (a transform), named by a string.
\<close>

datatype pyval = PyNone | PyBool bool | PyInt int | PyFloat rat | PyStr string
  | PyList "pyval list" | PyObj string

text \<open>The truth value that \<^verbatim>\<open>if x:\<close> tests.\<close>

fun truthy :: "pyval \<Rightarrow> bool" where
  "truthy PyNone = False"
| "truthy (PyBool b) = b"
| "truthy (PyInt i) = (i \<noteq> 0)"
| "truthy (PyFloat r) = (r \<noteq> 0)"
| "truthy (PyStr s) = (s \<noteq> [])"
| "truthy (PyList xs) = (xs \<noteq> [])"
| "truthy (PyObj name) = True"

text \<open>
  How Python binds the arguments of a call to the parameters of a \<^verbatim>\<open>def\<close>: the
  positional arguments go to the parameters in their order, each keyword argument to the
  parameter of its name, and a parameter left unbound takes its default. A parameter is
  its name and its default, if it has one.
\<close>

fun bind_keywords ::
  "string list \<Rightarrow> (string \<times> pyval) list \<Rightarrow> (string \<rightharpoonup> pyval) \<Rightarrow> error + (string \<rightharpoonup> pyval)" where
  "bind_keywords names [] env = Inr env"
| "bind_keywords names ((k, v) # kws) env =
     (if k \<notin> set names then Inl (TypeError ''unexpected keyword argument'')
      else if env k \<noteq> None then Inl (TypeError ''multiple values for argument'')
      else bind_keywords names kws (env(k \<mapsto> v)))"

fun bind_defaults ::
  "(string \<times> pyval option) list \<Rightarrow> (string \<rightharpoonup> pyval) \<Rightarrow> error + (string \<rightharpoonup> pyval)" where
  "bind_defaults [] env = Inr env"
| "bind_defaults ((name, dflt) # params) env =
     (case env name of
        Some v \<Rightarrow> bind_defaults params env
      | None \<Rightarrow>
          (case dflt of
             None \<Rightarrow> Inl (TypeError ''missing required positional argument'')
           | Some d \<Rightarrow> bind_defaults params (env(name \<mapsto> d))))"

definition bind_args ::
  "(string \<times> pyval option) list \<Rightarrow> pyval list \<Rightarrow> (string \<times> pyval) list
   \<Rightarrow> error + (string \<rightharpoonup> pyval)" where
  "bind_args params positional keywords =
     (if length params < length positional
      then Inl (TypeError ''too many positional arguments'')
      else case bind_keywords (map fst params) keywords
                  (map_of (zip (map fst params) positional)) of
             Inl e \<Rightarrow> Inl e
           | Inr env \<Rightarrow> bind_defaults params env)"

text \<open>
  The signature of \<^verbatim>\<open>create_loaders\<close>:
  \<^verbatim>\<open>(paths_to_images, labels=None, transform=None, split=False, batch_size=16, test_size=0.2)\<close>.
\<close>

definition create_loaders_params :: "(string \<times> pyval option) list" where
  "create_loaders_params =
     [(''paths_to_images'', None), (''labels'', Some PyNone), (''transform'', Some PyNone),
      (''split'', Some (PyBool False)), (''batch_size'', Some (PyInt 16)),
      (''test_size'', Some (PyFloat (1 / 5)))]"

text \<open>A \<^verbatim>\<open>CaptchaDataset\<close> and a \<^verbatim>\<open>DataLoader\<close> over it, as their constructor arguments.\<close>

record captcha_dataset =
  ds_paths :: pyval
  ds_targets :: pyval
  ds_transforms :: pyval

datatype collate_function = Collate_fn | Collate_fn_predict

record data_loader =
  dataset :: captcha_dataset
  loader_batch_size :: pyval
  shuffle :: bool
  collate :: collate_function

text \<open>
  The constructor of the loader belongs to the tensor library: it accepts a positive
  integer batch size (or \<^verbatim>\<open>None\<close>) and raises \<^verbatim>\<open>ValueError\<close> for any other.
\<close>

definition DataLoader ::
  "captcha_dataset \<Rightarrow> pyval \<Rightarrow> bool \<Rightarrow> collate_function \<Rightarrow> error + data_loader" where
  "DataLoader ds bs shuf coll =
     (let loader = \<lparr>dataset = ds, loader_batch_size = bs, shuffle = shuf, collate = coll\<rparr>
      in case bs of
           PyNone \<Rightarrow> Inr loader
         | PyInt n \<Rightarrow>
             if 0 < n then Inr loader
             else Inl (ValueError ''batch_size should be a positive integer value'')
         | other \<Rightarrow> Inl (ValueError ''batch_size should be a positive integer value''))"

text \<open>What \<^verbatim>\<open>create_loaders\<close> returns: the train and test loaders, or one loader.\<close>

datatype loaders = TrainTest data_loader data_loader | Single data_loader

fun loaders_list :: "loaders \<Rightarrow> data_loader list" where
  "loaders_list (TrainTest train_loader test_loader) = [train_loader, test_loader]"
| "loaders_list (Single loader) = [loader]"

text \<open>
  The body of \<^verbatim>\<open>create_loaders\<close>. \<open>train_test_split\<close> stands for the function of
  scikit-learn, called with \<^verbatim>\<open>random_state=7\<close>; it may raise.
\<close>

definition create_loaders ::
  "(pyval \<Rightarrow> pyval \<Rightarrow> pyval \<Rightarrow> int \<Rightarrow> error + pyval \<times> pyval \<times> pyval \<times> pyval)
   \<Rightarrow> pyval \<Rightarrow> pyval \<Rightarrow> pyval \<Rightarrow> pyval \<Rightarrow> pyval \<Rightarrow> pyval \<Rightarrow> error + loaders" where
  "create_loaders train_test_split paths labels transform split batch_size test_size =
     (if truthy split
      then (case train_test_split paths labels test_size 7 of
              Inl e \<Rightarrow> Inl e
            | Inr (train_img, test_img, train_targets, test_targets) \<Rightarrow>
                (let train_dataset = \<lparr>ds_paths = train_img, ds_targets = train_targets,
                                       ds_transforms = transform\<rparr>;
                     test_dataset = \<lparr>ds_paths = test_img, ds_targets = test_targets,
                                      ds_transforms = transform\<rparr>
                 in case DataLoader train_dataset batch_size True Collate_fn of
                      Inl e \<Rightarrow> Inl e
                    | Inr train_loader \<Rightarrow>
                        (case DataLoader test_dataset batch_size False Collate_fn of
                           Inl e \<Rightarrow> Inl e
                         | Inr test_loader \<Rightarrow> Inr (TrainTest train_loader test_loader))))
      else (let ds = \<lparr>ds_paths = paths, ds_targets = labels, ds_transforms = transform\<rparr>
            in case DataLoader ds batch_size False Collate_fn_predict of
                 Inl e \<Rightarrow> Inl e
               | Inr loader \<Rightarrow> Inr (Single loader)))"

text \<open>A call of \<^verbatim>\<open>create_loaders\<close>: the arguments are bound, then the body runs.\<close>

definition call_create_loaders ::
  "(pyval \<Rightarrow> pyval \<Rightarrow> pyval \<Rightarrow> int \<Rightarrow> error + pyval \<times> pyval \<times> pyval \<times> pyval)
   \<Rightarrow> pyval list \<Rightarrow> (string \<times> pyval) list \<Rightarrow> error + loaders" where
  "call_create_loaders train_test_split positional keywords =
     (case bind_args create_loaders_params positional keywords of
        Inl e \<Rightarrow> Inl e
      | Inr env \<Rightarrow>
          (case (env ''paths_to_images'', env ''labels'', env ''transform'', env ''split'',
                 env ''batch_size'', env ''test_size'') of
             (Some paths, Some labels, Some transform, Some split, Some batch_size,
              Some test_size) \<Rightarrow>
               create_loaders train_test_split paths labels transform split batch_size test_size
           | other \<Rightarrow> Inl (TypeError ''unbound parameter'')))"

text \<open>
  The command line of \<^verbatim>\<open>main.py\<close> as \<^verbatim>\<open>get_args\<close> parses it; \<^verbatim>\<open>--batch-size\<close> is
  an integer, 128 when absent.
\<close>

record args =
  arg_epochs :: int
  arg_path_to_data :: string
  arg_path_to_annotations :: string
  arg_batch_size :: int
  arg_load :: "string option"

text \<open>
  The call in \<^verbatim>\<open>train_pipeline\<close>:
  \<^verbatim>\<open>create_loaders(image_file_paths, labels_encoded, transform, args.batch_size, test_size=0.2)\<close>.
\<close>

definition train_pipeline_loaders ::
  "(pyval \<Rightarrow> pyval \<Rightarrow> pyval \<Rightarrow> int \<Rightarrow> error + pyval \<times> pyval \<times> pyval \<times> pyval)
   \<Rightarrow> pyval \<Rightarrow> pyval \<Rightarrow> pyval \<Rightarrow> args \<Rightarrow> error + loaders" where
  "train_pipeline_loaders train_test_split image_file_paths labels_encoded transform a =
     call_create_loaders train_test_split
       [image_file_paths, labels_encoded, transform, PyInt (arg_batch_size a)]
       [(''test_size'', PyFloat (1 / 5))]"

section \<open>The prediction pipeline: \<^verbatim>\<open>predict_pipeline\<close>\<close>

text \<open>
  The names that attribute lookup finds on an \<^verbatim>\<open>OCR\<close> object: the attributes that
  \<^verbatim>\<open>__init__\<close> sets on the instance, the functions defined in the class body, and what
  every class inherits from \<^verbatim>\<open>object\<close>. The class has no base class of its own and
  defines no \<^verbatim>\<open>__getattr__\<close>.
\<close>

definition OCR_instance_attributes :: "string list" where
  "OCR_instance_attributes =
     [''model'', ''_device'', ''_epoch'', ''_eval_loss'', ''_optimizer'', ''_criterion'',
      ''_path_save_checkpoint'', ''blank_token'', ''blank_ind'', ''ind2token'', ''token2ind'']"

definition OCR_methods :: "string list" where
  "OCR_methods =
     [''__init__'', ''train'', ''_train_epoch'', ''_validation_epoch'', ''to'', ''evaluations'',
      ''_evaluations_cer'', ''error_calculation_each_image'', ''save'', ''load'']"

definition object_attributes :: "string list" where
  "object_attributes =
     [''__class__'', ''__delattr__'', ''__dict__'', ''__dir__'', ''__doc__'', ''__eq__'',
      ''__format__'', ''__ge__'', ''__getattribute__'', ''__getstate__'', ''__gt__'',
      ''__hash__'', ''__init_subclass__'', ''__le__'', ''__lt__'', ''__module__'', ''__ne__'',
      ''__new__'', ''__reduce__'', ''__reduce_ex__'', ''__repr__'', ''__setattr__'',
      ''__sizeof__'', ''__str__'', ''__subclasshook__'', ''__weakref__'']"

text \<open>
  \<^verbatim>\<open>model.name\<close> on an \<^verbatim>\<open>OCR\<close> object: the instance, then the class, then
  \<^verbatim>\<open>object\<close>; a name found nowhere raises \<^verbatim>\<open>AttributeError\<close>.
\<close>

definition getattr_OCR :: "string \<Rightarrow> error + string" where
  "getattr_OCR name =
     (if name \<in> set OCR_instance_attributes then Inr name
      else if name \<in> set OCR_methods then Inr name
      else if name \<in> set object_attributes then Inr name
      else Inl (AttributeError name))"

text \<open>
  \<^verbatim>\<open>predict_pipeline\<close> from the call of \<^verbatim>\<open>create_loaders\<close> on. What the steps before
  it read from files is given: the image paths, the transform, the batch size of the
  configuration, and the checkpoint stored at \<^verbatim>\<open>params.path_to_model\<close>; \<open>params0\<close> and
  \<open>opt0\<close> are the parameters and the optimiser state of the freshly built network. The
  last statement looks up \<^verbatim>\<open>predict\<close> on the object and would call it.
\<close>

definition predict_pipeline ::
  "(pyval \<Rightarrow> pyval \<Rightarrow> pyval \<Rightarrow> int \<Rightarrow> error + pyval \<times> pyval \<times> pyval \<times> pyval)
   \<Rightarrow> pyval \<Rightarrow> pyval \<Rightarrow> int \<Rightarrow> 'p \<Rightarrow> 'o \<Rightarrow> ('p, 'o) checkpoint \<Rightarrow> error + string" where
  "predict_pipeline train_test_split image_file_paths transform batch_size params0 opt0
     checkpoint =
     (case call_create_loaders train_test_split [image_file_paths]
             [(''transform'', transform), (''split'', PyBool False),
              (''batch_size'', PyInt batch_size)] of
        Inl e \<Rightarrow> Inl e
      | Inr predict_loader \<Rightarrow>
          (case load (OCR_init params0 opt0) checkpoint of
             Inl e \<Rightarrow> Inl e
           | Inr model \<Rightarrow>
               (case getattr_OCR ''predict'' of
                  Inl e \<Rightarrow> Inl e
                | Inr method \<Rightarrow> Inr method)))"

section \<open>Evaluation: \<^verbatim>\<open>OCR.evaluations\<close>\<close>



section \<open>Properties of the greedy sequence decoder\<close>

lemma keep_changed_remdups_adj:
  "keep_changed prev raw =
     (case raw of [] \<Rightarrow> []
      | i # rest \<Rightarrow> if prev = Some i then tl (remdups_adj raw) else remdups_adj raw)"
proof (induction raw arbitrary: prev)
  case Nil
  show ?case by simp
next
  case (Cons i raw)
  show ?case
  proof (cases raw)
    case Nil
    then show ?thesis by simp
  next
    case (Cons j rest)
    with Cons.IH [of "Some i"] show ?thesis by simp
  qed
qed

lemma keep_changed_None: "keep_changed None raw = remdups_adj raw"
  by (simp add: keep_changed_remdups_adj split: list.splits)

lemma keep_changed_replicate:
  "keep_changed prev (replicate n b) = (if n = 0 \<or> prev = Some b then [] else [b])"
  by (induction n arbitrary: prev) auto

text \<open>
  C1. For every raw index sequence the greedy decoder returns the raw sequence with
  consecutive repeats collapsed and every blank index then removed, so no blank index
  is left in the result. With blank index 0 the input \<open>[0,3,3,0,5,5,5,0]\<close> decodes to
  \<open>[3,5]\<close>, and an input of \<open>n\<close> blanks (such as \<open>[0,0,0]\<close>) decodes to the empty
  sequence.
\<close>

theorem greedy_decode_collapses:
  "greedy_decode blank raw = filter (\<lambda>i. i \<noteq> blank) (remdups_adj raw)
   \<and> blank \<notin> set (greedy_decode blank raw)
   \<and> greedy_decode 0 [0, 3, 3, 0, 5, 5, 5, 0] = [3, 5]
   \<and> greedy_decode 0 [0, 0, 0] = []
   \<and> greedy_decode blank (replicate n blank) = []"
  by (simp add: greedy_decode_def keep_changed_None keep_changed_replicate)

section \<open>Properties of the alphabet codec\<close>

lemma dict_of_map_of: "dict_of kvs = map_of (rev kvs)"
proof -
  have "fold (\<lambda>(k, v) m. m(k \<mapsto> v)) kvs m = m ++ map_of (rev kvs)" for m :: "'a \<rightharpoonup> 'b"
    by (induction kvs arbitrary: m) (auto simp: map_add_upd_left)
  then show ?thesis by (simp add: dict_of_def)
qed

lemma ind2token_lookup:
  "dict_of (enumerate 0 xs) i = (if i < length xs then Some (xs ! i) else None)"
proof (cases "i < length xs")
  case True
  have "distinct (map fst (rev (enumerate 0 xs)))"
    by (simp add: rev_map [symmetric])
  moreover have "(i, xs ! i) \<in> set (rev (enumerate 0 xs))"
    using True by (simp add: in_set_enumerate_eq)
  ultimately have "map_of (rev (enumerate 0 xs)) i = Some (xs ! i)"
    by (rule map_of_is_SomeI)
  with True show ?thesis by (simp add: dict_of_map_of)
next
  case False
  then have "i \<notin> fst ` set (rev (enumerate 0 xs))"
    by (auto simp: in_set_enumerate_eq)
  then have "map_of (rev (enumerate 0 xs)) i = None"
    by (simp add: map_of_eq_None_iff)
  with False show ?thesis by (simp add: dict_of_map_of)
qed

lemma token2ind_SomeD:
  assumes "dict_of (map (\<lambda>(ind, target). (target, ind)) (enumerate 0 xs)) t = Some i"
  shows "i < length xs \<and> xs ! i = t"
proof -
  from assms have "(t, i) \<in> set (rev (map (\<lambda>(ind, target). (target, ind)) (enumerate 0 xs)))"
    by (simp only: dict_of_map_of) (rule map_of_SomeD)
  then have "(i, t) \<in> set (enumerate 0 xs)" by auto
  then show ?thesis by (simp add: in_set_enumerate_eq)
qed

lemma token2ind_defined:
  assumes "t \<in> set xs"
  shows "\<exists>i. dict_of (map (\<lambda>(ind, target). (target, ind)) (enumerate 0 xs)) t = Some i"
proof -
  from assms obtain i where "i < length xs" "xs ! i = t"
    by (auto simp: in_set_conv_nth)
  then have "(i, t) \<in> set (enumerate 0 xs)" by (simp add: in_set_enumerate_eq)
  then have "t \<in> fst ` set (rev (map (\<lambda>(ind, target). (target, ind)) (enumerate 0 xs)))"
    by force
  then have "map_of (rev (map (\<lambda>(ind, target). (target, ind)) (enumerate 0 xs))) t \<noteq> None"
    by (simp only: map_of_eq_None_iff) simp
  then show ?thesis by (auto simp: dict_of_map_of)
qed

lemma those_map_defined:
  "(\<And>x. x \<in> set xs \<Longrightarrow> f x \<noteq> None) \<Longrightarrow> those (map f xs) = Some (map (\<lambda>x. the (f x)) xs)"
  by (induction xs) (auto split: option.splits)

lemma lookup_all_defined:
  "(\<And>k. k \<in> set ks \<Longrightarrow> m k \<noteq> None) \<Longrightarrow> lookup_all m ks = Some (map (\<lambda>k. the (m k)) ks)"
  unfolding lookup_all_def by (rule those_map_defined)


lemma extract_data_Inr:
  fixes annotations :: "(string \<times> string) list" and blank :: string
  defines "targets \<equiv> map (map (\<lambda>c. [c])) (map snd annotations)"
  defines "flat \<equiv> blank # sorted_list_of_set (set (concat targets))"
  defines "t2i \<equiv> dict_of (map (\<lambda>(ind, target). (target, ind)) (enumerate 0 flat))"
  shows "extract_data annotations blank =
    Inr \<lparr>paths_to_images = map fst annotations,
         targets_enc = map (map (\<lambda>t. the (t2i t))) targets,
         token2ind = t2i, ind2token = dict_of (enumerate 0 flat),
         blank_token = blank, blank_ind = the (t2i blank),
         num_classes = length (remdups flat)\<rparr>"
proof -
  have flat_set: "set flat = insert blank (set (concat targets))"
    by (simp add: flat_def)
  have defined: "t2i t \<noteq> None" if "t \<in> set flat" for t
    using token2ind_defined [OF that] by (auto simp: t2i_def)
  have "lookup_all t2i ts = Some (map (\<lambda>t. the (t2i t)) ts)" if "ts \<in> set targets" for ts
  proof (rule lookup_all_defined)
    fix k assume "k \<in> set ts"
    with that have "k \<in> set flat" by (auto simp: flat_set)
    then show "t2i k \<noteq> None" by (rule defined)
  qed
  then have "map (lookup_all t2i) targets = map (\<lambda>ts. Some (map (\<lambda>t. the (t2i t)) ts)) targets"
    by simp
  then have enc: "those (map (lookup_all t2i) targets) = Some (map (map (\<lambda>t. the (t2i t))) targets)"
    by (simp add: those_map_defined comp_def)
  have "blank \<in> set flat" by (simp add: flat_def)
  then obtain b where b: "t2i blank = Some b" using defined by blast
  show ?thesis
    unfolding extract_data_def Let_def targets_def [symmetric] flat_def [symmetric]
      t2i_def [symmetric]
    using enc b by simp
qed

lemma blank_first_general:
  assumes no_clash: "\<And>p s c. (p, s) \<in> set annotations \<Longrightarrow> c \<in> set s \<Longrightarrow> [c] \<noteq> blank"
  shows "\<exists>r. extract_data annotations blank = Inr r \<and> blank_token r = blank
           \<and> token2ind r blank = Some 0 \<and> blank_ind r = 0 \<and> ind2token r 0 = Some blank"
proof -
  define rest where "rest = sorted_list_of_set (set (concat (map (map (\<lambda>c. [c])) (map snd annotations))))"
  define t2i where "t2i = dict_of (map (\<lambda>(ind, target). (target, ind)) (enumerate 0 (blank # rest)))"
  have "blank \<notin> set rest"
    using no_clash by (fastforce simp: rest_def)
  obtain i where i: "t2i blank = Some i"
    using token2ind_defined [of blank "blank # rest"] by (auto simp: t2i_def)
  then have "i < length (blank # rest)" "(blank # rest) ! i = blank"
    using token2ind_SomeD [of "blank # rest" blank i] by (simp_all add: t2i_def)
  with \<open>blank \<notin> set rest\<close> have "i = 0"
    by (cases i) auto
  with i have "t2i blank = Some 0" by simp
  moreover have "dict_of (enumerate 0 (blank # rest)) 0 = Some blank"
    by (simp only: ind2token_lookup) simp
  ultimately show ?thesis
    unfolding extract_data_Inr [of annotations blank, folded rest_def, folded t2i_def]
    by simp
qed

text \<open>
  C4. Whatever the annotation table (its labels, their characters and their order),
  \<^verbatim>\<open>extract_data\<close> called with its default blank token returns a codec whose
  token-to-index mapping sends the blank token to index 0; the returned blank index is 0
  and index 0 maps back to the blank token.
\<close>

theorem blank_first:
  "\<exists>r. extract_data annotations ''<BLANK>'' = Inr r \<and> blank_token r = ''<BLANK>''
       \<and> token2ind r ''<BLANK>'' = Some 0 \<and> blank_ind r = 0
       \<and> ind2token r 0 = Some ''<BLANK>''"
  by (rule blank_first_general) simp

text \<open>
  C3. For every label \<open>s\<close> of the annotation table the codec was built from, and any
  blank token, \<^verbatim>\<open>extract_data\<close> returns a codec in which looking up each
  character of \<open>s\<close> in \<open>token2ind\<close> succeeds and gives the encoded label stored in
  \<open>targets_enc\<close>, and looking up each of these indices in \<open>ind2token\<close> gives the
  characters of \<open>s\<close> back, whose concatenation is \<open>s\<close>.
\<close>

theorem codec_round_trip:
  assumes "(p, s) \<in> set annotations"
  shows "\<exists>r enc. extract_data annotations blank = Inr r
     \<and> lookup_all (token2ind r) (map (\<lambda>c. [c]) s) = Some enc
     \<and> enc \<in> set (targets_enc r)
     \<and> lookup_all (ind2token r) enc = Some (map (\<lambda>c. [c]) s)
     \<and> concat (map (\<lambda>c. [c]) s) = s"
proof -
  define targets where "targets = map (map (\<lambda>c. [c])) (map snd annotations)"
  define flat where "flat = blank # sorted_list_of_set (set (concat targets))"
  define t2i where "t2i = dict_of (map (\<lambda>(ind, target). (target, ind)) (enumerate 0 flat))"
  define toks where "toks = map (\<lambda>c. [c]) s"
  define enc where "enc = map (\<lambda>t. the (t2i t)) toks"
  have toks_in: "toks \<in> set targets"
    using assms by (force simp: toks_def targets_def)
  have in_flat: "t \<in> set flat" if "t \<in> set toks" for t
    using that toks_in by (auto simp: flat_def)
  have rt: "t2i t \<noteq> None \<and> dict_of (enumerate 0 flat) (the (t2i t)) = Some t"
    if t: "t \<in> set toks" for t
  proof -
    obtain i where i: "t2i t = Some i"
      using token2ind_defined [OF in_flat [OF t]] by (auto simp: t2i_def)
    then have "i < length flat \<and> flat ! i = t"
      using token2ind_SomeD [of flat t i] by (simp add: t2i_def)
    then show ?thesis using i by (simp add: ind2token_lookup)
  qed
  have 1: "lookup_all t2i toks = Some enc"
    unfolding enc_def by (rule lookup_all_defined) (simp add: rt)
  have "lookup_all (dict_of (enumerate 0 flat)) enc
          = Some (map (\<lambda>i. the (dict_of (enumerate 0 flat) i)) enc)"
    by (rule lookup_all_defined) (auto simp: enc_def rt)
  also have "map (\<lambda>i. the (dict_of (enumerate 0 flat) i)) enc = toks"
    by (simp add: enc_def comp_def rt map_idI)
  finally have 2: "lookup_all (dict_of (enumerate 0 flat)) enc = Some toks" .
  have 3: "enc \<in> set (map (map (\<lambda>t. the (t2i t))) targets)"
    using toks_in by (auto simp: enc_def)
  have 4: "concat toks = s"
    by (simp add: toks_def)
  show ?thesis
    unfolding extract_data_Inr [of annotations blank, folded targets_def, folded flat_def,
        folded t2i_def]
    using 1 2 3 4 by (simp flip: toks_def)
qed

theorem codec_round_trip_witness:
  "(''b.png'', ''cab'') \<in> set [(''a.png'', ''ba''), (''b.png'', ''cab'')]
   \<and> (\<exists>r enc. extract_data [(''a.png'', ''ba''), (''b.png'', ''cab'')] ''<BLANK>'' = Inr r
     \<and> lookup_all (token2ind r) [''c'', ''a'', ''b''] = Some enc
     \<and> enc \<in> set (targets_enc r)
     \<and> lookup_all (ind2token r) enc = Some [''c'', ''a'', ''b'']
     \<and> concat [''c'', ''a'', ''b''] = ''cab'')"
  using codec_round_trip [of "''b.png''" "''cab''" "[(''a.png'', ''ba''), (''b.png'', ''cab'')]" "''<BLANK>''"]
  by simp

text \<open>
  The default blank token matters here: a blank token that is itself a character of
  the labels is stored twice in the token list, and the later index replaces index 0 in
  \<open>token2ind\<close>.
\<close>

lemma blank_clash_example:
  "\<exists>r. extract_data [(''x.png'', ''a'')] ''a'' = Inr r \<and> blank_ind r = 1
       \<and> token2ind r ''a'' = Some 1 \<and> ind2token r 0 = Some ''a''"
  by (simp add: extract_data_def dict_of_def lookup_all_def)

section \<open>Properties of the evaluation scorer\<close>

lemma evaluations_cer_single:
  "evaluations_cer [t] [p] = tensor_div (edit_distance t p) (length p)"
  by (simp add: evaluations_cer_def CharErrorRate_def cer_update_def)

lemma edit_distance_sym: "edit_distance xs ys = edit_distance ys xs"
proof (induction xs ys rule: edit_distance.induct)
  case (1 reference)
  show ?case by (cases reference) simp_all
next
  case (2 p prediction)
  show ?case by simp
next
  case (3 p prediction r reference)
  then show ?case by (auto simp: min.left_commute)
qed

text \<open>
  Called in the library's own order, predictions first and true labels second, the
  metric is the score of the specification for every non-empty true string.
\<close>

lemma CharErrorRate_library_order:
  assumes "true \<noteq> []"
  shows "CharErrorRate [predicted] [true] = cer_spec true predicted"
proof -
  from assms have "max 1 (length true) = length true" by (cases true) simp_all
  with assms show ?thesis
    by (simp add: CharErrorRate_def cer_update_def tensor_div_def cer_spec_def
        edit_distance_sym [of predicted true])
qed

lemma evaluations_cer_equal_length:
  "(length t = length p \<and> t \<noteq> [] \<longrightarrow> evaluations_cer [t] [p] = cer_spec t p)
   \<and> evaluations_cer [''cat''] [''cat''] = Finite 0"
  by (cases p) (auto simp: evaluations_cer_single tensor_div_def cer_spec_def)

text \<open>
  C2, at the failing inputs. The scorer hands the true labels to the metric as its
  predictions and the predicted labels as its targets, so for every pair of strings it
  divides the edit distance by the length of the predicted string. The score of \<open>cat\<close>
  against the empty prediction is infinite where the claim says 1, and the score of
  \<open>cat\<close> against \<open>ca\<close> is 1/2 where the claim's formula gives 1/3; with the two
  arguments in the library's order the metric gives 1 and 1/3.
\<close>

theorem evaluations_cer_swapped_arguments:
  "evaluations_cer [t] [p] = tensor_div (edit_distance t p) (length p)
   \<and> evaluations_cer [''cat''] [''''] = PosInf \<and> cer_spec ''cat'' '''' = Finite 1
   \<and> evaluations_cer [''cat''] [''ca''] = Finite (1 / 2)
   \<and> cer_spec ''cat'' ''ca'' = Finite (1 / 3)
   \<and> CharErrorRate [''''] [''cat''] = Finite 1
   \<and> CharErrorRate [''ca''] [''cat''] = Finite (1 / 3)"
  by (simp add: evaluations_cer_single tensor_div_def cer_spec_def CharErrorRate_def
      cer_update_def)

section \<open>Properties of batch assembly\<close>

lemma bit_length_le: "bit_length n \<le> k \<longleftrightarrow> n < 2 ^ k"
proof (induction k arbitrary: n)
  case 0
  show ?case by (subst bit_length.simps) simp
next
  case (Suc k)
  have "bit_length n \<le> Suc k \<longleftrightarrow> n = 0 \<or> bit_length (n div 2) \<le> k"
    by (subst bit_length.simps) simp
  also have "\<dots> \<longleftrightarrow> n = 0 \<or> n div 2 < 2 ^ k" by (simp only: Suc.IH)
  also have "\<dots> \<longleftrightarrow> n < 2 ^ Suc k" by auto
  finally show ?case .
qed

lemma bit_length_eq:
  assumes "2 ^ k \<le> n" and "n < 2 ^ Suc k"
  shows "bit_length n = Suc k"
proof -
  have "bit_length n \<le> Suc k" using assms(2) by (simp only: bit_length_le)
  moreover have "\<not> bit_length n \<le> k" using assms(1) by (simp add: bit_length_le)
  ultimately show ?thesis by simp
qed

lemma float32_of_nat_exact:
  assumes "n \<le> 2 ^ 24"
  shows "float32_of_nat n = n"
proof (cases "n < 2 ^ 24")
  case True
  then have "bit_length n - 24 = 0" using bit_length_le [of n 24] by simp
  then show ?thesis by (simp add: float32_of_nat_def)
next
  case False
  with assms have n: "n = 2 ^ 24" by simp
  have "bit_length n = Suc 24" by (rule bit_length_eq) (simp_all add: n)
  then show ?thesis by (simp add: float32_of_nat_def n)
qed

lemma int_tensor_entry_exact: "n \<le> 2 ^ 24 \<Longrightarrow> int_tensor_entry n = int n"
  by (simp add: int_tensor_entry_def float32_of_nat_exact)

lemma float32_of_nat_first_inexact: "float32_of_nat 16777217 = 16777216"
proof -
  have "bit_length 16777217 = Suc 24" by (rule bit_length_eq) simp_all
  then show ?thesis by (simp add: float32_of_nat_def)
qed

lemma int_tensor_entry_first_inexact: "int_tensor_entry 16777217 = 16777216"
  by (simp add: int_tensor_entry_def float32_of_nat_first_inexact)

lemma int_tensor_exact:
  assumes "\<And>n. n \<in> set xs \<Longrightarrow> n \<le> 2 ^ 24"
  shows "int_tensor xs = map int xs"
  using assms by (simp add: int_tensor_def int_tensor_entry_exact)

lemma collate_items_eq:
  "collate_items items (imgs, sqs, lens, names) =
     (if list_all (\<lambda>item. seqs item \<noteq> None) items
      then Inr (imgs @ map image items,
                sqs @ concat (map (\<lambda>item. the (seqs item)) items),
                lens @ map (\<lambda>item. length (the (seqs item))) items,
                names @ map img_name items)
      else Inl (KeyError ''seqs''))"
  by (induction items arbitrary: imgs sqs lens names) (auto split: option.splits)

lemma torch_stack_ok:
  assumes "ts \<noteq> []" and "\<And>u. u \<in> set ts \<Longrightarrow> shape u = shape (hd ts)"
  shows "\<exists>t. torch_stack ts = Inr t"
proof (cases ts)
  case Nil
  with assms(1) show ?thesis by simp
next
  case (Cons t rest)
  have "list_all (\<lambda>u. shape u = shape t) rest"
    unfolding list_all_iff
  proof
    fix u assume "u \<in> set rest"
    then have "u \<in> set ts" by (simp add: Cons)
    from assms(2) [OF this] show "shape u = shape t" by (simp add: Cons)
  qed
  then show ?thesis by (simp add: torch_stack_def Cons)
qed

lemma collate_fn_Inr:
  assumes "collate_fn items = Inr b"
  shows "seq b = int_tensor (concat (map (\<lambda>item. the (seqs item)) items))"
    and "seq_len b = int_tensor (map (\<lambda>item. length (the (seqs item))) items)"
    and "img_names b = map img_name items"
    and "torch_stack (map image items) = Inr (images b)"
  using assms
  by (auto simp: collate_fn_def collate_items_eq split: if_splits sum.splits)

text \<open>
  C6, as amended. When \<^verbatim>\<open>collate_fn\<close> returns a batch, the number of lengths equals
  the number of samples, and if no label sequence of the batch has more than \<open>2^24\<close>
  elements, the lengths add up to the length of the flat label sequence. It does return
  a batch for every non-empty list of samples that all carry a label sequence and whose
  images have one shape.
\<close>

theorem collate_fn_invariant:
  "(collate_fn items = Inr b \<longrightarrow>
      length (seq_len b) = length items
      \<and> ((\<forall>item \<in> set items. \<forall>s. seqs item = Some s \<longrightarrow> length s \<le> 2 ^ 24)
           \<longrightarrow> sum_list (seq_len b) = int (length (seq b))))
   \<and> (items \<noteq> []
       \<and> (\<forall>item \<in> set items. seqs item \<noteq> None
                                \<and> shape (image item) = shape (image (hd items)))
      \<longrightarrow> (\<exists>b'. collate_fn items = Inr b'))"
proof (intro conjI impI)
  assume ret: "collate_fn items = Inr b"
  show "length (seq_len b) = length items"
    by (simp add: collate_fn_Inr(2) [OF ret] int_tensor_def)
  assume small: "\<forall>item \<in> set items. \<forall>s. seqs item = Some s \<longrightarrow> length s \<le> 2 ^ 24"
  have carry: "seqs item \<noteq> None" if "item \<in> set items" for item
    using ret that
    by (auto simp: collate_fn_def collate_items_eq list_all_iff split: if_splits)
  have "int_tensor (map (\<lambda>item. length (the (seqs item))) items)
          = map int (map (\<lambda>item. length (the (seqs item))) items)"
  proof (rule int_tensor_exact)
    fix n assume "n \<in> set (map (\<lambda>item. length (the (seqs item))) items)"
    then obtain item where "item \<in> set items" "n = length (the (seqs item))" by auto
    with small carry [of item] show "n \<le> 2 ^ 24" by auto
  qed
  then have "sum_list (seq_len b)
               = sum_list (map int (map (\<lambda>item. length (the (seqs item))) items))"
    by (simp only: collate_fn_Inr(2) [OF ret])
  also have "\<dots> = int (sum_list (map (\<lambda>item. length (the (seqs item))) items))"
    by (rule sum_list_of_nat)
  also have "\<dots> = int (length (concat (map (\<lambda>item. the (seqs item)) items)))"
    by (simp add: length_concat comp_def)
  also have "\<dots> = int (length (seq b))"
    by (simp add: collate_fn_Inr(1) [OF ret] int_tensor_def)
  finally show "sum_list (seq_len b) = int (length (seq b))" .
next
  assume ok: "items \<noteq> []
    \<and> (\<forall>item \<in> set items. seqs item \<noteq> None
                             \<and> shape (image item) = shape (image (hd items)))"
  from ok have "items \<noteq> []" by (rule conjunct1)
  then have ne: "map image items \<noteq> []" by simp
  from ok have every: "\<forall>item \<in> set items. seqs item \<noteq> None
      \<and> shape (image item) = shape (image (hd items))"
    by (rule conjunct2)
  have carry: "list_all (\<lambda>item. seqs item \<noteq> None) items"
    unfolding list_all_iff using every by blast
  have same: "shape (image item) = shape (image (hd items))" if "item \<in> set items" for item
    using every that by blast
  have "shape u = shape (hd (map image items))" if "u \<in> set (map image items)" for u
  proof -
    from that obtain item where item: "item \<in> set items" "u = image item" by auto
    from ne have "hd (map image items) = image (hd items)" by (simp add: hd_map)
    with same [OF item(1)] item(2) show ?thesis by simp
  qed
  with ne obtain t where "torch_stack (map image items) = Inr t"
    using torch_stack_ok by blast
  with carry show "\<exists>b'. collate_fn items = Inr b'"
    by (simp add: collate_fn_def collate_items_eq)
qed

theorem collate_fn_invariant_witness:
  "collate_fn
     [\<lparr>image = \<lparr>shape = [1], cells = [0::nat]\<rparr>, img_name = ''a.png'', seqs = Some [1, 2]\<rparr>,
      \<lparr>image = \<lparr>shape = [1], cells = [5]\<rparr>, img_name = ''b.png'', seqs = Some [3, 2, 1]\<rparr>]
     = Inr \<lparr>images = \<lparr>shape = [2, 1], cells = [0, 5]\<rparr>, seq = [1, 2, 3, 2, 1],
            seq_len = [2, 3], img_names = [''a.png'', ''b.png'']\<rparr>
   \<and> length [2, 3 :: int] = length [''a.png'', ''b.png'']
   \<and> sum_list [2, 3 :: int] = int (length [1, 2, 3, 2, 1 :: int])"
  using collate_fn_invariant
    [of "[\<lparr>image = \<lparr>shape = [1], cells = [0::nat]\<rparr>, img_name = ''a.png'', seqs = Some [1, 2]\<rparr>,
          \<lparr>image = \<lparr>shape = [1], cells = [5]\<rparr>, img_name = ''b.png'', seqs = Some [3, 2, 1]\<rparr>]"
        "\<lparr>images = \<lparr>shape = [2, 1], cells = [0, 5]\<rparr>, seq = [1, 2, 3, 2, 1],
          seq_len = [2, 3], img_names = [''a.png'', ''b.png'']\<rparr>"]
  by (simp add: collate_fn_def torch_stack_def int_tensor_def int_tensor_entry_exact)

text \<open>
  C6 as stated fails on a sample whose label sequence has \<open>2^24 + 1\<close> elements: the
  length is rounded to \<open>2^24\<close> on its way through the float tensor, so the single
  length of the batch is one less than the length of the flat label sequence.
\<close>

theorem collate_fn_counterexample:
  "collate_fn
     [\<lparr>image = \<lparr>shape = [1], cells = [0::nat]\<rparr>, img_name = ''a.png'',
       seqs = Some (replicate 16777217 1)\<rparr>]
     = Inr \<lparr>images = \<lparr>shape = [1, 1], cells = [0]\<rparr>, seq = replicate 16777217 1,
            seq_len = [16777216], img_names = [''a.png'']\<rparr>
   \<and> sum_list [16777216 :: int] \<noteq> int (length (replicate 16777217 (1::int)))"
  by (simp add: collate_fn_def torch_stack_def int_tensor_def int_tensor_entry_exact
      int_tensor_entry_first_inexact)

section \<open>Properties of checkpoint loading\<close>

lemma load_succeeds_iff:
  "(\<exists>s. load obj checkpoint = Inr s) \<longleftrightarrow>
     model_state_dict checkpoint \<noteq> None
     \<and> (epoch checkpoint \<noteq> None \<longrightarrow> loss checkpoint \<noteq> None)"
  by (auto simp: load_def Let_def split: option.splits)

lemma load_without_epoch:
  assumes "model_state_dict checkpoint = Some params" and "epoch checkpoint = None"
  shows "load obj checkpoint =
    Inr (obj\<lparr>ocr_model := params,
              ocr_optimizer := (case optimizer_state_dic checkpoint of
                                  Some opt \<Rightarrow> opt | None \<Rightarrow> ocr_optimizer obj)\<rparr>)"
  using assms by (simp add: load_def split: option.splits)

lemma load_save_training:
  "load obj (save other True) =
     Inr (obj\<lparr>ocr_model := ocr_model other, ocr_optimizer := ocr_optimizer other,
               ocr_epoch := ocr_epoch other, ocr_eval_loss := ocr_eval_loss other\<rparr>)"
  by (simp add: load_def save_def)

text \<open>
  C7, at the failing input. A checkpoint that holds the parameters and the epoch counter
  but no best validation loss is not loaded: the lookup of the key \<open>loss\<close> raises
  \<^verbatim>\<open>KeyError\<close>, whatever the object and whether or not the optimiser state is there.
\<close>

theorem load_epoch_without_loss:
  "load obj \<lparr>model_state_dict = Some params, optimizer_state_dic = opt,
              epoch = Some e, loss = None\<rparr> = Inl (KeyError ''loss'')"
  by (simp add: load_def split: option.splits)

section \<open>Properties of the training loop\<close>

lemma train_loop_raises_on_zero:
  assumes "train_epoch (ocr_model (self st)) (ocr_optimizer (self st))
             = Inr (params, opt, train_loss)"
    and "validation_epoch params = Inr eval_loss"
  shows "train_loop train_epoch validation_epoch save_checkpoint 0 index (Suc n) st
           = Inl ZeroDivisionError"
  using assms by (simp add: train_iteration_def)

lemma train_loop_files_grow:
  assumes "train_loop train_epoch validation_epoch save_checkpoint visualize_each index n st
             = Inr st'"
  shows "\<exists>new. files st' = files st @ new"
  using assms
proof (induction n arbitrary: index st)
  case 0
  then show ?case by simp
next
  case (Suc n)
  from Suc.prems obtain mid where
    step: "train_iteration train_epoch validation_epoch save_checkpoint visualize_each
             index st = Inr mid"
    and rest: "train_loop train_epoch validation_epoch save_checkpoint visualize_each
             (Suc index) n mid = Inr st'"
    by (auto split: sum.splits)
  from step have "\<exists>new. files mid = files st @ new"
    by (auto simp: train_iteration_def Let_def split: sum.splits if_splits prod.splits)
  moreover from Suc.IH [OF rest] have "\<exists>new. files st' = files mid @ new" .
  ultimately show ?case by auto
qed

text \<open>
  C5, as amended. Take one pass of the loop in which the training epoch and the
  validation epoch return and \<open>visualize_each\<close> is not 0. With \<open>save_checkpoint\<close> set,
  the pass ends normally, the epoch counter has grown by one, and: if the validation
  loss is strictly less than the best loss seen, the best loss becomes the validation
  loss and exactly one file is written, named by the new epoch counter and the
  validation loss and holding the parameters, the optimiser state, that epoch and that
  loss; otherwise the best loss and the files are unchanged. With \<open>save_checkpoint\<close>
  unset, the best loss and the files are unchanged in every case.
\<close>

theorem train_iteration_checkpoint:
  assumes "train_epoch (ocr_model (self st)) (ocr_optimizer (self st))
             = Inr (params, opt, train_loss)"
    and "validation_epoch params = Inr eval_loss"
    and "visualize_each \<noteq> 0"
  shows "\<exists>st' st''.
      train_iteration train_epoch validation_epoch True visualize_each index st = Inr st'
    \<and> ocr_epoch (self st') = ocr_epoch (self st) + 1
    \<and> (float_lt eval_loss (ocr_eval_loss (self st)) \<longrightarrow>
         ocr_eval_loss (self st') = eval_loss
         \<and> files st' = files st @
             [(\<lparr>directory = path_save_checkpoint (self st),
                name_epoch = ocr_epoch (self st) + 1, name_loss = eval_loss\<rparr>,
               \<lparr>model_state_dict = Some params, optimizer_state_dic = Some opt,
                epoch = Some (ocr_epoch (self st) + 1), loss = Some eval_loss\<rparr>)])
    \<and> (\<not> float_lt eval_loss (ocr_eval_loss (self st)) \<longrightarrow>
         ocr_eval_loss (self st') = ocr_eval_loss (self st) \<and> files st' = files st)
    \<and> train_iteration train_epoch validation_epoch False visualize_each index st = Inr st''
    \<and> ocr_eval_loss (self st'') = ocr_eval_loss (self st) \<and> files st'' = files st"
  using assms by (simp add: train_iteration_def float_lt_def save_def Let_def)

theorem train_iteration_checkpoint_witness:
  "(\<lambda>p opt. Inr (Suc p, opt, Finite 2)) (ocr_model (OCR_init (0::nat) (0::nat)))
       (ocr_optimizer (OCR_init (0::nat) (0::nat))) = (Inr (1, 0, Finite 2)
         :: error + nat \<times> nat \<times> pyfloat)
   \<and> (5::int) \<noteq> 0
   \<and> float_lt (Finite 3) PosInf
   \<and> (\<exists>st'. train_iteration (\<lambda>p opt. Inr (Suc p, opt, Finite 2)) (\<lambda>p. Inr (Finite 3)) True 5 0
              \<lparr>self = OCR_init (0::nat) (0::nat), files = [], evaluations_loss = [],
               progress = []\<rparr> = Inr st'
         \<and> ocr_eval_loss (self st') = Finite 3
         \<and> files st' =
             [(\<lparr>directory = ''./model/checkpoints/'', name_epoch = 1, name_loss = Finite 3\<rparr>,
               \<lparr>model_state_dict = Some 1, optimizer_state_dic = Some 0,
                epoch = Some 1, loss = Some (Finite 3)\<rparr>)])"
  using train_iteration_checkpoint
    [of "\<lambda>p opt. Inr (Suc p, opt, Finite 2)"
        "\<lparr>self = OCR_init (0::nat) (0::nat), files = [], evaluations_loss = [],
          progress = []\<rparr>"
        1 0 "Finite 2" "\<lambda>p. Inr (Finite 3)" "Finite 3" 5 0]
  by (auto simp: OCR_init_def float_lt_def)

text \<open>
  C5 as stated fails when \<open>save_checkpoint\<close> is unset: the first validation loss 1 is
  strictly less than the initial best loss, infinity, yet the pass writes no file and
  leaves the best loss at infinity.
\<close>

theorem train_iteration_counterexample:
  "float_lt (Finite 1) (ocr_eval_loss (OCR_init (0::nat) (0::nat)))
   \<and> train_iteration (\<lambda>p opt. Inr (p, opt, Finite 1)) (\<lambda>p. Inr (Finite 1)) False 5 0
        \<lparr>self = OCR_init (0::nat) (0::nat), files = [], evaluations_loss = [],
         progress = []\<rparr>
      = Inr \<lparr>self = (OCR_init 0 0)\<lparr>ocr_epoch := 1\<rparr>, files = [],
             evaluations_loss = [Finite 1], progress = []\<rparr>"
  by (simp add: train_iteration_def OCR_init_def float_lt_def)

section \<open>Properties of the loaders built by the training entry point\<close>

lemma train_pipeline_binding:
  "\<exists>env. bind_args create_loaders_params [p, l, t, PyInt b] [(''test_size'', PyFloat (1 / 5))]
           = Inr env
     \<and> env ''paths_to_images'' = Some p \<and> env ''labels'' = Some l
     \<and> env ''transform'' = Some t \<and> env ''split'' = Some (PyInt b)
     \<and> env ''batch_size'' = Some (PyInt 16) \<and> env ''test_size'' = Some (PyFloat (1 / 5))"
  by (simp add: bind_args_def create_loaders_params_def)

lemma train_pipeline_loaders_eq:
  "train_pipeline_loaders tts p l t a =
     create_loaders tts p l t (PyInt (arg_batch_size a)) (PyInt 16) (PyFloat (1 / 5))"
  by (simp add: train_pipeline_loaders_def call_create_loaders_def bind_args_def
      create_loaders_params_def)

lemma create_loaders_batch_size:
  assumes "create_loaders tts p l t split (PyInt 16) ts = Inr ls"
  shows "list_all (\<lambda>ld. loader_batch_size ld = PyInt 16) (loaders_list ls)"
  using assms
  by (auto simp: create_loaders_def DataLoader_def split: if_splits sum.splits)

text \<open>
  C8, as amended. In the call made by the training entry point the value of
  \<^verbatim>\<open>--batch-size\<close> is bound to the parameter \<open>split\<close> and the parameter \<open>batch_size\<close>
  keeps its default 16, so every loader the call returns has batch size 16. When the
  value is not zero and the split of the data returns, the call returns the train and
  the test loader, both of batch size 16; when the value is zero it returns a single
  loader, of batch size 16 and with the collate function of prediction.
\<close>

theorem train_pipeline_batch_size:
  "(\<exists>env. bind_args create_loaders_params [p, l, t, PyInt (arg_batch_size a)]
            [(''test_size'', PyFloat (1 / 5))] = Inr env
      \<and> env ''split'' = Some (PyInt (arg_batch_size a))
      \<and> env ''batch_size'' = Some (PyInt 16))
   \<and> (train_pipeline_loaders tts p l t a = Inr ls \<longrightarrow>
        list_all (\<lambda>ld. loader_batch_size ld = PyInt 16) (loaders_list ls))
   \<and> (arg_batch_size a \<noteq> 0
        \<and> tts p l (PyFloat (1 / 5)) 7 = Inr (train_img, test_img, train_targets, test_targets)
      \<longrightarrow> train_pipeline_loaders tts p l t a =
            Inr (TrainTest
              \<lparr>dataset = \<lparr>ds_paths = train_img, ds_targets = train_targets, ds_transforms = t\<rparr>,
               loader_batch_size = PyInt 16, shuffle = True, collate = Collate_fn\<rparr>
              \<lparr>dataset = \<lparr>ds_paths = test_img, ds_targets = test_targets, ds_transforms = t\<rparr>,
               loader_batch_size = PyInt 16, shuffle = False, collate = Collate_fn\<rparr>))
   \<and> (arg_batch_size a = 0
      \<longrightarrow> train_pipeline_loaders tts p l t a =
            Inr (Single
              \<lparr>dataset = \<lparr>ds_paths = p, ds_targets = l, ds_transforms = t\<rparr>,
               loader_batch_size = PyInt 16, shuffle = False,
               collate = Collate_fn_predict\<rparr>))"
proof (intro conjI impI)
  show "\<exists>env. bind_args create_loaders_params [p, l, t, PyInt (arg_batch_size a)]
            [(''test_size'', PyFloat (1 / 5))] = Inr env
      \<and> env ''split'' = Some (PyInt (arg_batch_size a))
      \<and> env ''batch_size'' = Some (PyInt 16)"
    using train_pipeline_binding [of p l t "arg_batch_size a"] by blast
next
  assume "train_pipeline_loaders tts p l t a = Inr ls"
  then show "list_all (\<lambda>ld. loader_batch_size ld = PyInt 16) (loaders_list ls)"
    unfolding train_pipeline_loaders_eq by (rule create_loaders_batch_size)
next
  assume "arg_batch_size a \<noteq> 0
    \<and> tts p l (PyFloat (1 / 5)) 7 = Inr (train_img, test_img, train_targets, test_targets)"
  then show "train_pipeline_loaders tts p l t a =
            Inr (TrainTest
              \<lparr>dataset = \<lparr>ds_paths = train_img, ds_targets = train_targets, ds_transforms = t\<rparr>,
               loader_batch_size = PyInt 16, shuffle = True, collate = Collate_fn\<rparr>
              \<lparr>dataset = \<lparr>ds_paths = test_img, ds_targets = test_targets, ds_transforms = t\<rparr>,
               loader_batch_size = PyInt 16, shuffle = False, collate = Collate_fn\<rparr>)"
    by (simp add: train_pipeline_loaders_eq create_loaders_def DataLoader_def)
next
  assume "arg_batch_size a = 0"
  then show "train_pipeline_loaders tts p l t a =
            Inr (Single
              \<lparr>dataset = \<lparr>ds_paths = p, ds_targets = l, ds_transforms = t\<rparr>,
               loader_batch_size = PyInt 16, shuffle = False,
               collate = Collate_fn_predict\<rparr>)"
    by (simp add: train_pipeline_loaders_eq create_loaders_def DataLoader_def)
qed

theorem train_pipeline_batch_size_witness:
  "arg_batch_size \<lparr>arg_epochs = 10000, arg_path_to_data = ''./data/sample'',
      arg_path_to_annotations = ''./data/list_images.csv'', arg_batch_size = 128,
      arg_load = None\<rparr> \<noteq> 0
   \<and> train_pipeline_loaders (\<lambda>xs ys size seed. Inr (xs, xs, ys, ys))
        (PyList [PyStr ''a.png'']) (PyList [PyList [PyInt 1]]) (PyObj ''transform'')
        \<lparr>arg_epochs = 10000, arg_path_to_data = ''./data/sample'',
         arg_path_to_annotations = ''./data/list_images.csv'', arg_batch_size = 128,
         arg_load = None\<rparr>
     = Inr (TrainTest
         \<lparr>dataset = \<lparr>ds_paths = PyList [PyStr ''a.png''], ds_targets = PyList [PyList [PyInt 1]],
                     ds_transforms = PyObj ''transform''\<rparr>,
          loader_batch_size = PyInt 16, shuffle = True, collate = Collate_fn\<rparr>
         \<lparr>dataset = \<lparr>ds_paths = PyList [PyStr ''a.png''], ds_targets = PyList [PyList [PyInt 1]],
                     ds_transforms = PyObj ''transform''\<rparr>,
          loader_batch_size = PyInt 16, shuffle = False, collate = Collate_fn\<rparr>)"
  using train_pipeline_batch_size
    [of "PyList [PyStr ''a.png'']" "PyList [PyList [PyInt 1]]" "PyObj ''transform''"
        "\<lparr>arg_epochs = 10000, arg_path_to_data = ''./data/sample'',
          arg_path_to_annotations = ''./data/list_images.csv'', arg_batch_size = 128,
          arg_load = None\<rparr>"
        "\<lambda>xs ys size seed. Inr (xs, xs, ys, ys)" _
        "PyList [PyStr ''a.png'']" "PyList [PyStr ''a.png'']"
        "PyList [PyList [PyInt 1]]" "PyList [PyList [PyInt 1]]"]
  by simp

text \<open>
  C8 as stated fails for \<^verbatim>\<open>--batch-size 0\<close>: the value bound to \<open>split\<close> is then false,
  and the call builds no train and test loaders but the single loader of the other
  branch.
\<close>

theorem train_pipeline_batch_size_counterexample:
  "train_pipeline_loaders (\<lambda>xs ys size seed. Inr (xs, xs, ys, ys))
     (PyList [PyStr ''a.png'']) (PyList [PyList [PyInt 1]]) (PyObj ''transform'')
     \<lparr>arg_epochs = 10000, arg_path_to_data = ''./data/sample'',
      arg_path_to_annotations = ''./data/list_images.csv'', arg_batch_size = 0,
      arg_load = None\<rparr>
   = Inr (Single
       \<lparr>dataset = \<lparr>ds_paths = PyList [PyStr ''a.png''], ds_targets = PyList [PyList [PyInt 1]],
                   ds_transforms = PyObj ''transform''\<rparr>,
        loader_batch_size = PyInt 16, shuffle = False, collate = Collate_fn_predict\<rparr>)"
  by (simp add: train_pipeline_loaders_eq create_loaders_def DataLoader_def)

section \<open>Properties of the prediction pipeline\<close>

lemma getattr_OCR_predict: "getattr_OCR ''predict'' = Inl (AttributeError ''predict'')"
  by (simp add: getattr_OCR_def OCR_instance_attributes_def OCR_methods_def
      object_attributes_def)

lemma getattr_OCR_defined:
  "getattr_OCR ''load'' = Inr ''load'' \<and> getattr_OCR ''evaluations'' = Inr ''evaluations''
   \<and> getattr_OCR ''train'' = Inr ''train''"
  by (simp add: getattr_OCR_def OCR_instance_attributes_def OCR_methods_def)

text \<open>
  C9. Looking up \<^verbatim>\<open>predict\<close> on an \<^verbatim>\<open>OCR\<close> object raises \<^verbatim>\<open>AttributeError\<close>.
  Hence no run of \<^verbatim>\<open>predict_pipeline\<close> ends normally, whatever its inputs, and every
  run in which the loader is built and the checkpoint is loaded, so that the last
  statement is reached, raises \<^verbatim>\<open>AttributeError\<close> for \<^verbatim>\<open>predict\<close>.
\<close>

theorem predict_pipeline_raises:
  "getattr_OCR ''predict'' = Inl (AttributeError ''predict'')
   \<and> (\<forall>r. predict_pipeline tts image_file_paths transform batch_size params0 opt0 checkpoint
            \<noteq> Inr r)
   \<and> (call_create_loaders tts [image_file_paths]
         [(''transform'', transform), (''split'', PyBool False),
          (''batch_size'', PyInt batch_size)] = Inr predict_loader
       \<and> load (OCR_init params0 opt0) checkpoint = Inr model
      \<longrightarrow> predict_pipeline tts image_file_paths transform batch_size params0 opt0 checkpoint
            = Inl (AttributeError ''predict''))"
  by (simp add: predict_pipeline_def getattr_OCR_predict split: sum.splits)

theorem predict_pipeline_raises_witness:
  "call_create_loaders (\<lambda>xs ys size seed. Inr (xs, xs, ys, ys)) [PyList [PyStr ''1.jpg'']]
     [(''transform'', PyObj ''transform''), (''split'', PyBool False), (''batch_size'', PyInt 8)]
     = Inr (Single
         \<lparr>dataset = \<lparr>ds_paths = PyList [PyStr ''1.jpg''], ds_targets = PyNone,
                     ds_transforms = PyObj ''transform''\<rparr>,
          loader_batch_size = PyInt 8, shuffle = False, collate = Collate_fn_predict\<rparr>)
   \<and> load (OCR_init (0::nat) (0::nat))
        \<lparr>model_state_dict = Some 1, optimizer_state_dic = None, epoch = None, loss = None\<rparr>
     = Inr ((OCR_init 0 0)\<lparr>ocr_model := 1\<rparr>)
   \<and> predict_pipeline (\<lambda>xs ys size seed. Inr (xs, xs, ys, ys)) (PyList [PyStr ''1.jpg''])
        (PyObj ''transform'') 8 (0::nat) (0::nat)
        \<lparr>model_state_dict = Some 1, optimizer_state_dic = None, epoch = None, loss = None\<rparr>
     = Inl (AttributeError ''predict'')"
  using predict_pipeline_raises
    [of "\<lambda>xs ys size seed. Inr (xs, xs, ys, ys)" "PyList [PyStr ''1.jpg'']"
        "PyObj ''transform''" 8 "0::nat" "0::nat"
        "\<lparr>model_state_dict = Some 1, optimizer_state_dic = None, epoch = None, loss = None\<rparr>"
        "Single \<lparr>dataset = \<lparr>ds_paths = PyList [PyStr ''1.jpg''], ds_targets = PyNone,
                     ds_transforms = PyObj ''transform''\<rparr>,
          loader_batch_size = PyInt 8, shuffle = False, collate = Collate_fn_predict\<rparr>"
        "(OCR_init 0 0)\<lparr>ocr_model := 1\<rparr>"]
  by (simp add: call_create_loaders_def bind_args_def create_loaders_params_def
      create_loaders_def DataLoader_def load_def OCR_init_def)

section \<open>Properties of evaluation\<close>





end
